theory Spec2Isabelle
  imports Complex_Main
begin

section \<open>Python values and failures\<close>

text \<open>
  Python floats are modelled as \<^typ>\<open>real\<close>, Python integers as \<^typ>\<open>int\<close>, lists and
  one-dimensional numpy arrays as HOL lists. Every exception the modelled code can raise is a
  value of \<open>py_error\<close>; a function that may raise returns \<open>py_error + 'a\<close>.
\<close>

datatype py_error = IndexError | KeyError | ZeroDivisionError | ValueError

text \<open>\<open>xs[i]\<close>: an index below zero counts from the end, an index out of range raises.\<close>

definition py_index :: "'a list \<Rightarrow> int \<Rightarrow> py_error + 'a" where
  "py_index xs i =
     (if 0 \<le> i \<and> i < int (length xs) then Inr (xs ! nat i)
      else if i < 0 \<and> - int (length xs) \<le> i then Inr (xs ! nat (int (length xs) + i))
      else Inl IndexError)"

text \<open>\<open>xs[lo:hi]\<close> with two integer bounds: each bound is wrapped once when negative and
  then clipped to the length; slicing never raises.\<close>

definition slice_bound :: "nat \<Rightarrow> int \<Rightarrow> nat" where
  "slice_bound n i = (if i < 0 then nat (max 0 (int n + i)) else min (nat i) n)"

definition py_slice :: "'a list \<Rightarrow> int \<Rightarrow> int \<Rightarrow> 'a list" where
  "py_slice xs lo hi =
     (let s = slice_bound (length xs) lo; e = slice_bound (length xs) hi
      in take (e - s) (drop s xs))"

section \<open>Process\_Data.py\<close>

subsection \<open>smooth\_data\<close>

text \<open>
  \<^verbatim>\<open>start_index = max(0, current_timestamp - window_size + 1)\<close>,
  \<^verbatim>\<open>end_index = current_timestamp + 1\<close>,
  \<^verbatim>\<open>sum(data[start_index:end_index]) / (end_index - start_index)\<close>.
  The divisor is zero exactly when the slice is empty and the sum is the integer 0, which
  raises \<open>ZeroDivisionError\<close>.
\<close>

definition smooth_data :: "int \<Rightarrow> real list \<Rightarrow> int \<Rightarrow> py_error + real" where
  "smooth_data current_timestamp data window_size =
     (let start_index = max 0 (current_timestamp - window_size + 1);
          end_index = current_timestamp + 1
      in if end_index - start_index = 0 then Inl ZeroDivisionError
         else Inr (sum_list (py_slice data start_index end_index)
                     / real_of_int (end_index - start_index)))"

subsection \<open>The plant update laws\<close>

definition update_temperature ::
  "int \<Rightarrow> real list \<Rightarrow> real list \<Rightarrow> real \<Rightarrow> real \<Rightarrow> real \<Rightarrow> real \<Rightarrow> real \<Rightarrow> py_error + real" where
  "update_temperature time_stamp temp_base modified_temp action_level_heater
       min_limit max_limit decay_rate action_factor =
     (case py_index temp_base time_stamp of
        Inl e \<Rightarrow> Inl e
      | Inr current_temp_base \<Rightarrow>
     (case py_index modified_temp (time_stamp - 1) of
        Inl e \<Rightarrow> Inl e
      | Inr previous_modified_temp \<Rightarrow>
          (let intensity = action_level_heater / 10
           in Inr (if intensity > 0 then
                     previous_modified_temp
                       + (max_limit - previous_modified_temp) * intensity * action_factor
                   else if intensity < 0 then
                     previous_modified_temp
                       - (previous_modified_temp - min_limit) * \<bar>intensity\<bar> * action_factor
                   else if previous_modified_temp > current_temp_base then
                     max current_temp_base (previous_modified_temp - decay_rate)
                   else
                     min current_temp_base (previous_modified_temp + decay_rate)))))"

definition update_humidity ::
  "int \<Rightarrow> real list \<Rightarrow> real list \<Rightarrow> real \<Rightarrow> real \<Rightarrow> real \<Rightarrow> real \<Rightarrow> real \<Rightarrow> py_error + real" where
  "update_humidity time_stamp humidity_base modified_humidity action_level_dehumidifier
       action_level_ventilation min_limit decay_rate action_factor =
     (case py_index humidity_base time_stamp of
        Inl e \<Rightarrow> Inl e
      | Inr current_humidity_base \<Rightarrow>
     (case py_index modified_humidity (time_stamp - 1) of
        Inl e \<Rightarrow> Inl e
      | Inr previous_modified_humidity \<Rightarrow>
          (let intensity = (action_level_dehumidifier + action_level_ventilation) / 10
           in Inr (if intensity > 0 then
                     previous_modified_humidity
                       - (previous_modified_humidity - min_limit) * intensity * action_factor
                   else
                     previous_modified_humidity
                       + (current_humidity_base - previous_modified_humidity) * decay_rate))))"

definition update_moisture ::
  "int \<Rightarrow> real list \<Rightarrow> real list \<Rightarrow> real \<Rightarrow> real \<Rightarrow> real \<Rightarrow> real \<Rightarrow> py_error + real" where
  "update_moisture time_stamp moisture_base modified_moisture action_level_ventilation
       min_limit decay_rate action_factor =
     (case py_index moisture_base time_stamp of
        Inl e \<Rightarrow> Inl e
      | Inr current_moisture_base \<Rightarrow>
     (case py_index modified_moisture (time_stamp - 1) of
        Inl e \<Rightarrow> Inl e
      | Inr previous_modified_moisture \<Rightarrow>
          (let intensity = action_level_ventilation / 10
           in Inr (if intensity > 0 then
                     previous_modified_moisture
                       - (previous_modified_moisture - min_limit) * intensity * action_factor
                   else
                     previous_modified_moisture
                       + (current_moisture_base - previous_modified_moisture) * decay_rate))))"

section \<open>Decision\_Making.py\<close>

text \<open>
  Each controller builds its linguistic variables, its rules and a fresh
  \<^verbatim>\<open>ControlSystemSimulation\<close>, assigns the readings it uses, calls \<^verbatim>\<open>compute()\<close> and
  reads one output. Variables, terms and rules are data here. The inference itself, from the
  assignment of the inputs to the dictionary of outputs, is the fuzzy-control library's,
  which the repository calls and does not contain: it is the parameter \<open>compute\<close> of every
  controller, taking the rules and the assigned inputs to the outputs, or raising.
\<close>

record fuzzy_variable =
  var_name :: string
  universe :: "real list"
  terms :: "(string \<times> (real \<times> real \<times> real)) list"

datatype antecedent = Term fuzzy_variable string | And_terms antecedent antecedent

type_synonym rule = "antecedent \<times> (fuzzy_variable \<times> string)"

type_synonym inference = "rule list \<Rightarrow> (string \<times> real) list \<Rightarrow> py_error + (string \<times> real) list"

definition bind_err :: "py_error + 'a \<Rightarrow> ('a \<Rightarrow> py_error + 'b) \<Rightarrow> py_error + 'b" where
  "bind_err m f = (case m of Inl e \<Rightarrow> Inl e | Inr v \<Rightarrow> f v)"

text \<open>\<open>d[k]\<close> on a dictionary.\<close>

definition py_lookup :: "(string \<times> 'a) list \<Rightarrow> string \<Rightarrow> py_error + 'a" where
  "py_lookup d k = (case map_of d k of None \<Rightarrow> Inl KeyError | Some v \<Rightarrow> Inr v)"

text \<open>\<^verbatim>\<open>np.arange(lo, hi, 1)\<close> for integer bounds.\<close>

definition arange :: "int \<Rightarrow> int \<Rightarrow> real list" where
  "arange lo hi = map real_of_int [lo..hi - 1]"

definition dehumidifier_rules :: "rule list" where
  "dehumidifier_rules =
     (let humidity = \<lparr>var_name = ''humidity'', universe = arange 0 101,
            terms = [(''low'', (0, 0, 50)), (''medium'', (45, 60, 75)), (''high'', (70, 100, 100))]\<rparr>;
          dehumidifier = \<lparr>var_name = ''dehumidifier'', universe = arange (- 10) 11,
            terms = [(''off'', (- 10, - 10, 1)), (''low'', (0, 3 / 2, 3)), (''high'', (2, 10, 10))]\<rparr>;
          rule1 = (Term humidity ''high'', (dehumidifier, ''high''));
          rule2 = (Term humidity ''medium'', (dehumidifier, ''low''));
          rule3 = (Term humidity ''low'', (dehumidifier, ''off''))
      in [rule1, rule2, rule3])"

definition dehumidifier_controller :: "inference \<Rightarrow> real list \<Rightarrow> py_error + real" where
  "dehumidifier_controller compute sensdata =
     bind_err (py_index sensdata 1) (\<lambda>h.
     bind_err (compute dehumidifier_rules [(''humidity'', h)]) (\<lambda>output.
     py_lookup output ''dehumidifier''))"

definition ventilation_rules :: "rule list" where
  "ventilation_rules =
     (let humidity = \<lparr>var_name = ''humidity'', universe = arange 0 101,
            terms = [(''low'', (0, 0, 60)), (''medium'', (55, 65, 75)), (''high'', (70, 100, 100))]\<rparr>;
          moisture = \<lparr>var_name = ''moisture'', universe = arange 0 101,
            terms = [(''low'', (0, 0, 15)), (''medium'', (10, 15, 20)), (''high'', (15, 100, 100))]\<rparr>;
          ventilation = \<lparr>var_name = ''ventilation'', universe = arange (- 10) 11,
            terms = [(''off'', (- 10, - 10, 1)), (''low'', (0, 3 / 2, 3)), (''high'', (2, 10, 10))]\<rparr>;
          rule1 = (And_terms (Term humidity ''high'') (Term moisture ''high''), (ventilation, ''high''));
          rule2 = (And_terms (Term humidity ''high'') (Term moisture ''medium''), (ventilation, ''high''));
          rule3 = (And_terms (Term humidity ''high'') (Term moisture ''low''), (ventilation, ''high''));
          rule4 = (And_terms (Term humidity ''medium'') (Term moisture ''high''), (ventilation, ''high''));
          rule6 = (And_terms (Term humidity ''low'') (Term moisture ''high''), (ventilation, ''high''));
          rule5 = (And_terms (Term humidity ''medium'') (Term moisture ''medium''), (ventilation, ''low''));
          rule7 = (And_terms (Term humidity ''medium'') (Term moisture ''low''), (ventilation, ''low''));
          rule8 = (And_terms (Term humidity ''low'') (Term moisture ''medium''), (ventilation, ''low''));
          rule9 = (And_terms (Term humidity ''low'') (Term moisture ''low''), (ventilation, ''off''))
      in [rule1, rule2, rule3, rule4, rule5, rule6, rule7, rule8, rule9])"

definition ventilation_controller :: "inference \<Rightarrow> real list \<Rightarrow> py_error + real" where
  "ventilation_controller compute sensdata =
     bind_err (py_index sensdata 1) (\<lambda>h.
     bind_err (py_index sensdata 2) (\<lambda>m.
     bind_err (compute ventilation_rules [(''humidity'', h), (''moisture'', m)]) (\<lambda>output.
     py_lookup output ''ventilation'')))"

definition heating_rules :: "rule list" where
  "heating_rules =
     (let temperature = \<lparr>var_name = ''temperature'', universe = arange 0 31,
            terms = [(''cold'', (0, 0, 19)), (''medium'', (18, 20, 22)), (''hot'', (21, 30, 30))]\<rparr>;
          heating = \<lparr>var_name = ''heating'', universe = arange (- 10) 11,
            terms = [(''cool'', (- 10, - 10, 0)), (''off'', (- 5, 0, 5)), (''on'', (0, 10, 10))]\<rparr>;
          rule1 = (Term temperature ''hot'', (heating, ''cool''));
          rule2 = (Term temperature ''medium'', (heating, ''off''));
          rule3 = (Term temperature ''cold'', (heating, ''on''))
      in [rule1, rule2, rule3])"

definition heating_controller :: "inference \<Rightarrow> real list \<Rightarrow> py_error + real" where
  "heating_controller compute sensdata =
     bind_err (py_index sensdata 0) (\<lambda>t.
     bind_err (compute heating_rules [(''temperature'', t)]) (\<lambda>output.
     py_lookup output ''heating''))"

subsection \<open>The triangular membership function\<close>

text \<open>\<open>x / y\<close> on floats, raising on a zero divisor.\<close>

definition py_div :: "real \<Rightarrow> real \<Rightarrow> py_error + real" where
  "py_div x y = (if y = 0 then Inl ZeroDivisionError else Inr (x / y))"

text \<open>
  Modelled from the spec: the membership degree of a triangular set, which
  Decision\_Making.py obtains from the fuzzy library's \<^verbatim>\<open>trimf\<close>; that function is called
  by the repository and is not part of its sources. Section 4.1 of the spec: triangular
  interpolation between the breakpoints \<open>(a, b, c)\<close>, a linear ramp up on \<open>[a, b]\<close>, a
  linear ramp down on \<open>[b, c]\<close>, zero outside, peak 1 at \<open>b\<close>; with \<open>a = b\<close> or \<open>b = c\<close>
  the ramp on the empty side is not evaluated.
\<close>

definition degree :: "real \<times> real \<times> real \<Rightarrow> real \<Rightarrow> py_error + real" where
  "degree abc x =
     (case abc of (a, b, c) \<Rightarrow>
        if x = b then Inr 1
        else if a < x \<and> x < b then py_div (x - a) (b - a)
        else if b < x \<and> x < c then py_div (c - x) (c - b)
        else Inr 0)"

section \<open>Main.py\<close>

subsection \<open>Configuration parameters\<close>

definition temperature_min_limit :: real where "temperature_min_limit = 5"
definition temperature_max_limit :: real where "temperature_max_limit = 25"
definition temperature_decay_rate :: real where "temperature_decay_rate = 5 / 100"
definition temperature_action_factor :: real where "temperature_action_factor = 5 / 100"
definition humidity_min_limit :: real where "humidity_min_limit = 0"
definition humidity_decay_rate :: real where "humidity_decay_rate = 5 / 100"
definition humidity_action_factor :: real where "humidity_action_factor = 3 / 100"
definition moisture_min_limit :: real where "moisture_min_limit = 0"
definition moisture_decay_rate :: real where "moisture_decay_rate = 5 / 100"
definition moisture_action_factor :: real where "moisture_action_factor = 5 / 100"

subsection \<open>The time-stepping loop\<close>

text \<open>
  The signal generators draw random numbers; their results are the inputs of the loop: the
  time vector and, for each variable, its base and noise series.
\<close>

record signals =
  temperature_base :: "real list"
  temperature_noise :: "real list"
  humidity_base :: "real list"
  humidity_noise :: "real list"
  moisture_base :: "real list"
  moisture_noise :: "real list"

record sim_state =
  temperature_updated :: "real list"
  humidity_updated :: "real list"
  moisture_updated :: "real list"
  dehumidifier_action :: "real list"
  ventilation_action :: "real list"
  heating_action :: "real list"

text \<open>\<open>a[i] = v\<close> on an array.\<close>

definition py_store :: "'a list \<Rightarrow> int \<Rightarrow> 'a \<Rightarrow> py_error + 'a list" where
  "py_store xs i v =
     (if 0 \<le> i \<and> i < int (length xs) then Inr (xs[nat i := v])
      else if i < 0 \<and> - int (length xs) \<le> i then Inr (xs[nat (int (length xs) + i) := v])
      else Inl IndexError)"

text \<open>\<open>a + b\<close> on one-dimensional arrays: elementwise, an array of one element is
  broadcast, any other pair of different lengths raises.\<close>

definition np_add :: "real list \<Rightarrow> real list \<Rightarrow> py_error + real list" where
  "np_add xs ys =
     (if length xs = length ys then Inr (map (\<lambda>(x, y). x + y) (zip xs ys))
      else if length xs = 1 then Inr (map (\<lambda>y. hd xs + y) ys)
      else if length ys = 1 then Inr (map (\<lambda>x. x + hd ys) xs)
      else Inl ValueError)"

text \<open>The three plant updates of a step \<open>i > 0\<close>, in the order of the source.\<close>

definition plant_updates :: "signals \<Rightarrow> sim_state \<Rightarrow> int \<Rightarrow> py_error + sim_state" where
  "plant_updates sg st i =
     bind_err (py_index (heating_action st) (i - 1)) (\<lambda>h.
     bind_err (update_temperature i (temperature_base sg) (temperature_updated st) h
                 temperature_min_limit temperature_max_limit
                 temperature_decay_rate temperature_action_factor) (\<lambda>t_new.
     bind_err (py_store (temperature_updated st) i t_new) (\<lambda>tu.
     bind_err (py_index (dehumidifier_action st) (i - 1)) (\<lambda>d.
     bind_err (py_index (ventilation_action st) (i - 1)) (\<lambda>v.
     bind_err (update_humidity i (humidity_base sg) (humidity_updated st) d v
                 humidity_min_limit humidity_decay_rate humidity_action_factor) (\<lambda>h_new.
     bind_err (py_store (humidity_updated st) i h_new) (\<lambda>hu.
     bind_err (py_index (ventilation_action st) (i - 1)) (\<lambda>v'.
     bind_err (update_moisture i (moisture_base sg) (moisture_updated st) v'
                 moisture_min_limit moisture_decay_rate moisture_action_factor) (\<lambda>m_new.
     bind_err (py_store (moisture_updated st) i m_new) (\<lambda>mu.
     Inr (st\<lparr>temperature_updated := tu, humidity_updated := hu,
              moisture_updated := mu\<rparr>)))))))))))"

text \<open>Noise, smoothing and the three readings handed to the controllers.\<close>

definition sense :: "signals \<Rightarrow> sim_state \<Rightarrow> int \<Rightarrow> py_error + real list" where
  "sense sg st time_stamp =
     bind_err (np_add (temperature_updated st) (temperature_noise sg)) (\<lambda>noisy_temperature.
     bind_err (np_add (humidity_updated st) (humidity_noise sg)) (\<lambda>noisy_humidity.
     bind_err (np_add (moisture_updated st) (moisture_noise sg)) (\<lambda>noisy_moisture.
     bind_err (smooth_data time_stamp noisy_temperature 5) (\<lambda>temperature.
     bind_err (smooth_data time_stamp noisy_humidity 5) (\<lambda>humidity.
     bind_err (smooth_data time_stamp noisy_moisture 5) (\<lambda>moisture.
     Inr [temperature, humidity, moisture]))))))"

text \<open>The branch \<^verbatim>\<open>if i % 1 == 0\<close> and its \<^verbatim>\<open>else\<close>.\<close>

definition record_actions ::
  "inference \<Rightarrow> real list \<Rightarrow> sim_state \<Rightarrow> int \<Rightarrow> py_error + sim_state" where
  "record_actions compute sensdata st i =
     (if i mod 1 = 0 then
        bind_err (dehumidifier_controller compute sensdata) (\<lambda>a.
        bind_err (py_store (dehumidifier_action st) i a) (\<lambda>da.
        bind_err (ventilation_controller compute sensdata) (\<lambda>b.
        bind_err (py_store (ventilation_action st) i b) (\<lambda>va.
        bind_err (heating_controller compute sensdata) (\<lambda>c.
        bind_err (py_store (heating_action st) i c) (\<lambda>ha.
        Inr (st\<lparr>dehumidifier_action := da, ventilation_action := va,
                 heating_action := ha\<rparr>)))))))
      else
        bind_err (py_index (dehumidifier_action st) (i - 1)) (\<lambda>a.
        bind_err (py_store (dehumidifier_action st) i a) (\<lambda>da.
        bind_err (py_index (ventilation_action st) (i - 1)) (\<lambda>b.
        bind_err (py_store (ventilation_action st) i b) (\<lambda>va.
        bind_err (py_index (heating_action st) (i - 1)) (\<lambda>c.
        bind_err (py_store (heating_action st) i c) (\<lambda>ha.
        Inr (st\<lparr>dehumidifier_action := da, ventilation_action := va,
                 heating_action := ha\<rparr>))))))))"

definition loop_body :: "inference \<Rightarrow> signals \<Rightarrow> sim_state \<Rightarrow> int \<Rightarrow> py_error + sim_state" where
  "loop_body compute sg st i =
     bind_err (if i > 0 then plant_updates sg st i else Inr st) (\<lambda>st1.
     bind_err (sense sg st1 i) (\<lambda>sensdata.
     record_actions compute sensdata st1 i))"

text \<open>\<^verbatim>\<open>for i in range(len(time))\<close>: the indices still to run are the list argument.\<close>

fun run_loop :: "inference \<Rightarrow> signals \<Rightarrow> sim_state \<Rightarrow> nat list \<Rightarrow> py_error + sim_state" where
  "run_loop compute sg st [] = Inr st"
| "run_loop compute sg st (i # rest) =
     bind_err (loop_body compute sg st (int i)) (\<lambda>st'. run_loop compute sg st' rest)"

definition initial_state :: "real list \<Rightarrow> signals \<Rightarrow> sim_state" where
  "initial_state time sg =
     \<lparr>temperature_updated = temperature_base sg,
      humidity_updated = humidity_base sg,
      moisture_updated = moisture_base sg,
      dehumidifier_action = replicate (length time) 0,
      ventilation_action = replicate (length time) 0,
      heating_action = replicate (length time) 0\<rparr>"

definition simulate :: "inference \<Rightarrow> real list \<Rightarrow> signals \<Rightarrow> py_error + sim_state" where
  "simulate compute time sg = run_loop compute sg (initial_state time sg) [0..<length time]"

subsection \<open>Rise time and stability\<close>

text \<open>\<open>a[mask]\<close> with a boolean array of another length raises.\<close>

definition np_select :: "real list \<Rightarrow> bool list \<Rightarrow> py_error + real list" where
  "np_select xs flags =
     (if length flags = length xs then Inr (map fst (filter snd (zip xs flags)))
      else Inl IndexError)"

text \<open>\<^verbatim>\<open>len(rise) / len(time[time >= rise[0]])\<close>.\<close>

definition stability :: "real list \<Rightarrow> real list \<Rightarrow> py_error + real" where
  "stability time rise =
     bind_err (py_index rise 0) (\<lambda>r0.
     (let later = filter (\<lambda>t. t \<ge> r0) time
      in if length later = 0 then Inl ZeroDivisionError
         else Inr (real (length rise) / real (length later))))"

text \<open>The end of \<^verbatim>\<open>main\<close>: the three rise times followed by the three stabilities, as
  printed.\<close>

definition rise_and_stability ::
  "real list \<Rightarrow> sim_state \<Rightarrow> py_error + ((real \<times> real \<times> real) \<times> (real \<times> real \<times> real))" where
  "rise_and_stability time st =
     bind_err (np_select time (map (\<lambda>x. x \<le> 22 \<and> x \<ge> 18) (temperature_updated st)))
       (\<lambda>rise_temperature.
     bind_err (np_select time (map (\<lambda>x. x \<le> 60 \<and> x \<ge> 40) (humidity_updated st)))
       (\<lambda>rise_humidity.
     bind_err (np_select time (map (\<lambda>x. x \<le> 20) (moisture_updated st)))
       (\<lambda>rise_moisture.
     bind_err (stability time rise_temperature) (\<lambda>stability_temperature.
     bind_err (stability time rise_humidity) (\<lambda>stability_humidity.
     bind_err (stability time rise_moisture) (\<lambda>stability_moisture.
     bind_err (py_index rise_temperature 0) (\<lambda>rt.
     bind_err (py_index rise_humidity 0) (\<lambda>rh.
     bind_err (py_index rise_moisture 0) (\<lambda>rm.
     Inr ((rt, rh, rm),
          (stability_temperature, stability_humidity, stability_moisture)))))))))))"

subsection \<open>Relations between the series of a run\<close>

text \<open>
  \<open>lagged sg st t\<close>: in the state \<open>st\<close>, the value of each updated series at \<open>t\<close> is what
  its update law returns from the base series, the updated series and the actions recorded
  at \<open>t - 1\<close>. \<open>untouched sg st j\<close>: the three updated series still hold their base values
  at \<open>j\<close>. \<open>loop_invariant N sg k st\<close> is the state of the loop before iteration \<open>k\<close>.
\<close>

definition lagged :: "signals \<Rightarrow> sim_state \<Rightarrow> nat \<Rightarrow> bool" where
  "lagged sg st t \<longleftrightarrow>
     update_temperature (int t) (temperature_base sg) (temperature_updated st)
         (heating_action st ! (t - 1)) temperature_min_limit temperature_max_limit
         temperature_decay_rate temperature_action_factor = Inr (temperature_updated st ! t)
     \<and> update_humidity (int t) (humidity_base sg) (humidity_updated st)
         (dehumidifier_action st ! (t - 1)) (ventilation_action st ! (t - 1))
         humidity_min_limit humidity_decay_rate humidity_action_factor
           = Inr (humidity_updated st ! t)
     \<and> update_moisture (int t) (moisture_base sg) (moisture_updated st)
         (ventilation_action st ! (t - 1))
         moisture_min_limit moisture_decay_rate moisture_action_factor
           = Inr (moisture_updated st ! t)"

definition same_lengths :: "nat \<Rightarrow> sim_state \<Rightarrow> bool" where
  "same_lengths N st \<longleftrightarrow>
     length (temperature_updated st) = N \<and> length (humidity_updated st) = N
     \<and> length (moisture_updated st) = N \<and> length (dehumidifier_action st) = N
     \<and> length (ventilation_action st) = N \<and> length (heating_action st) = N"

definition untouched :: "signals \<Rightarrow> sim_state \<Rightarrow> nat \<Rightarrow> bool" where
  "untouched sg st j \<longleftrightarrow>
     temperature_updated st ! j = temperature_base sg ! j
     \<and> humidity_updated st ! j = humidity_base sg ! j
     \<and> moisture_updated st ! j = moisture_base sg ! j"

definition loop_invariant :: "nat \<Rightarrow> signals \<Rightarrow> nat \<Rightarrow> sim_state \<Rightarrow> bool" where
  "loop_invariant N sg k st \<longleftrightarrow>
     same_lengths N st
     \<and> (\<forall>j < N. j = 0 \<or> k \<le> j \<longrightarrow> untouched sg st j)
     \<and> (\<forall>j. 0 < j \<and> j < k \<longrightarrow> lagged sg st j)"

section \<open>Indexing and slicing inside the range\<close>

lemma py_index_nat:
  "t < length xs \<Longrightarrow> py_index xs (int t) = Inr (xs ! t)"
  by (simp add: py_index_def)

lemma py_index_pred:
  "0 < t \<Longrightarrow> t \<le> length xs \<Longrightarrow> py_index xs (int t - 1) = Inr (xs ! (t - 1))"
  using py_index_nat [of "t - 1" xs] by (simp add: of_nat_diff)

lemma py_slice_nat:
  "s \<le> e \<Longrightarrow> e \<le> length xs \<Longrightarrow> py_slice xs (int s) (int e) = take (e - s) (drop s xs)"
  by (simp add: py_slice_def slice_bound_def)

lemma sum_list_window:
  "s + n \<le> length xs \<Longrightarrow> sum_list (take n (drop s xs)) = (\<Sum>k = s..<s + n. (xs ! k :: real))"
proof -
  assume le: "s + n \<le> length xs"
  have "sum_list (take n (drop s xs)) = (\<Sum>i = 0..<n. take n (drop s xs) ! i)"
    using le by (simp add: sum_list_sum_nth)
  also have "\<dots> = (\<Sum>i = 0..<n. xs ! (s + i))"
    using le by (intro sum.cong) simp_all
  also have "\<dots> = (\<Sum>k = s..<s + n. xs ! k)"
    using sum.shift_bounds_nat_ivl [of "\<lambda>k. xs ! k" 0 s n] by (simp add: add.commute)
  finally show ?thesis .
qed

lemma bind_err_Inl [simp]: "bind_err (Inl e) f = Inl e"
  by (simp add: bind_err_def)

lemma bind_err_Inr [simp]: "bind_err (Inr v) f = f v"
  by (simp add: bind_err_def)

section \<open>The plant update laws\<close>

text \<open>
  Claim C3. At every timestep \<open>t > 0\<close> inside the series, the temperature update with
  previous heating action \<open>h\<close> returns a value \<open>r\<close>, and with \<open>intensity = h / 10\<close>:
  a positive intensity gives \<open>prev + (max_limit - prev) * intensity * action_factor\<close>; a
  negative one gives \<open>prev - (prev - min_limit) * |intensity| * action_factor\<close>; a zero
  intensity moves \<open>prev\<close> by the fixed step \<open>decay_rate\<close> in the direction of \<open>base[t]\<close>,
  stopping at \<open>base[t]\<close> when the step would reach or pass it, so the result is never on the
  other side of \<open>base[t]\<close>.
\<close>

theorem update_temperature_law:
  assumes "0 < t" and "t < length temp_base" and "t \<le> length modified_temp"
  shows "\<exists>r. update_temperature (int t) temp_base modified_temp h
              min_limit max_limit decay_rate action_factor = Inr r
     \<and> (let prev = modified_temp ! (t - 1); base = temp_base ! t; intensity = h / 10
        in (intensity > 0 \<longrightarrow> r = prev + (max_limit - prev) * intensity * action_factor)
         \<and> (intensity < 0 \<longrightarrow> r = prev - (prev - min_limit) * \<bar>intensity\<bar> * action_factor)
         \<and> (intensity = 0 \<longrightarrow>
              r = (if \<bar>base - prev\<bar> \<le> decay_rate then base
                   else if prev > base then prev - decay_rate else prev + decay_rate)
              \<and> (prev > base \<longrightarrow> base \<le> r) \<and> (prev \<le> base \<longrightarrow> r \<le> base)))"
  using assms
  by (auto simp add: update_temperature_def py_index_nat py_index_pred Let_def max_def min_def)

theorem update_temperature_law_witness:
  "0 < (1::nat) \<and> 1 < length [15, 1501 / 100 :: real] \<and> 1 \<le> length [15, 15 :: real]
   \<and> update_temperature 1 [15, 1501 / 100] [15, 15] 0 5 25 (5 / 100) (5 / 100)
         = Inr (1501 / 100)
   \<and> update_temperature 1 [15, 16] [15, 15] 5 5 25 (5 / 100) (5 / 100) = Inr (61 / 4)
   \<and> update_temperature 1 [15, 16] [15, 15] (- 5) 5 25 (5 / 100) (5 / 100) = Inr (59 / 4)"
  using update_temperature_law [of 1 "[15, 1501 / 100]" "[15, 15]" 0 5 25 "5 / 100" "5 / 100"]
    update_temperature_law [of 1 "[15, 16]" "[15, 15]" 5 5 25 "5 / 100" "5 / 100"]
    update_temperature_law [of 1 "[15, 16]" "[15, 15]" "- 5" 5 25 "5 / 100" "5 / 100"]
  by (simp add: update_temperature_def py_index_def Let_def)

text \<open>
  Claim C4. At every timestep \<open>t > 0\<close> inside the series, the humidity update with combined
  intensity \<open>(dehumidifier + ventilation) / 10\<close> gives
  \<open>prev - (prev - min_limit) * intensity * action_factor\<close> when the intensity is positive
  (there is no branch towards a maximum) and the fractional pull
  \<open>prev + (base[t] - prev) * decay_rate\<close> otherwise; the moisture update is the same law
  with the intensity \<open>ventilation / 10\<close>.
\<close>

theorem update_humidity_moisture_law:
  assumes "0 < t" and "t < length base" and "t \<le> length modified"
  shows "update_humidity (int t) base modified d v min_limit decay_rate action_factor =
           Inr (let prev = modified ! (t - 1); intensity = (d + v) / 10
                in if intensity > 0 then prev - (prev - min_limit) * intensity * action_factor
                   else prev + (base ! t - prev) * decay_rate)
       \<and> update_moisture (int t) base modified v min_limit decay_rate action_factor =
           Inr (let prev = modified ! (t - 1); intensity = v / 10
                in if intensity > 0 then prev - (prev - min_limit) * intensity * action_factor
                   else prev + (base ! t - prev) * decay_rate)"
  using assms
  by (simp add: update_humidity_def update_moisture_def py_index_nat py_index_pred Let_def)

theorem update_humidity_moisture_law_witness:
  "0 < (1::nat) \<and> 1 < length [70, 72 :: real] \<and> 1 \<le> length [70, 70 :: real]
   \<and> update_humidity 1 [70, 72] [70, 70] 2 3 0 (5 / 100) (3 / 100) = Inr (1379 / 20)
   \<and> update_moisture 1 [70, 72] [70, 70] 3 0 (5 / 100) (3 / 100) = Inr (6937 / 100)
   \<and> update_humidity 1 [70, 72] [70, 70] 2 (- 3) 0 (5 / 100) (3 / 100) = Inr (701 / 10)
   \<and> update_moisture 1 [70, 72] [70, 70] (- 3) 0 (5 / 100) (3 / 100) = Inr (701 / 10)"
  using update_humidity_moisture_law [of 1 "[70, 72]" "[70, 70]" 2 3 0 "5 / 100" "3 / 100"]
    update_humidity_moisture_law [of 1 "[70, 72]" "[70, 70]" 2 "- 3" 0 "5 / 100" "3 / 100"]
  by (simp add: update_humidity_def update_moisture_def py_index_def Let_def)

text \<open>
  Claim C5, as the code has it. With a non-negative \<open>action_factor\<close>, a positive heating
  intensity never lowers a previous temperature that is at most \<open>max_limit\<close>, and a positive
  dehumidifier/ventilation intensity never raises a previous humidity (moisture) that is at
  least \<open>min_limit\<close>. Beyond the limit the update pulls the value back towards the limit.
\<close>

theorem plant_update_monotone:
  assumes "0 < t" and "t < length base" and "t \<le> length modified" and "0 \<le> action_factor"
  shows "(0 < h / 10 \<and> modified ! (t - 1) \<le> max_limit \<longrightarrow>
            (\<exists>r. update_temperature (int t) base modified h
                    min_limit max_limit decay_rate action_factor = Inr r
                 \<and> modified ! (t - 1) \<le> r))
       \<and> (0 < (d + v) / 10 \<and> min_limit \<le> modified ! (t - 1) \<longrightarrow>
            (\<exists>r. update_humidity (int t) base modified d v
                    min_limit decay_rate action_factor = Inr r
                 \<and> r \<le> modified ! (t - 1)))
       \<and> (0 < v / 10 \<and> min_limit \<le> modified ! (t - 1) \<longrightarrow>
            (\<exists>r. update_moisture (int t) base modified v
                    min_limit decay_rate action_factor = Inr r
                 \<and> r \<le> modified ! (t - 1)))"
  using assms
  by (simp add: update_temperature_def update_humidity_def update_moisture_def
        py_index_nat py_index_pred Let_def)

theorem plant_update_monotone_witness:
  "0 < (1::nat) \<and> 1 < length [15, 16 :: real] \<and> 1 \<le> length [15, 15 :: real]
   \<and> (0::real) \<le> 5 / 100 \<and> (0::real) < 5 / 10 \<and> [15, 15 :: real] ! (1 - 1) \<le> 25
   \<and> (0::real) \<le> [15, 15] ! (1 - 1)
   \<and> (\<exists>r. update_temperature 1 [15, 16] [15, 15] 5 0 25 (5 / 100) (5 / 100) = Inr r
          \<and> 15 \<le> r)
   \<and> (\<exists>r. update_humidity 1 [15, 16] [15, 15] 0 5 0 (5 / 100) (5 / 100) = Inr r \<and> r \<le> 15)
   \<and> (\<exists>r. update_moisture 1 [15, 16] [15, 15] 5 0 (5 / 100) (5 / 100) = Inr r \<and> r \<le> 15)"
  using plant_update_monotone [of 1 "[15, 16]" "[15, 15]" "5 / 100" 5 25 0 "5 / 100" 0 5]
  by simp

text \<open>
  Claim C5 as stated, for every previous value, fails: with the limits and factors of
  Main.py, a previous temperature of 30 and the full heating action 10 give 29.75, and a
  previous humidity of \<open>- 10\<close> with dehumidifier action 10 gives \<open>- 9.7\<close>.
\<close>

theorem plant_update_monotone_counterexample:
  "update_temperature 1 [15, 15] [30, 15] 10 temperature_min_limit temperature_max_limit
       temperature_decay_rate temperature_action_factor = Inr (119 / 4)
   \<and> (119 / 4 :: real) < [30, 15] ! 0
   \<and> update_humidity 1 [70, 70] [- 10, 70] 10 0 humidity_min_limit
       humidity_decay_rate humidity_action_factor = Inr (- 97 / 10)
   \<and> [- 10, 70] ! 0 < (- 97 / 10 :: real)"
  by (simp add: update_temperature_def update_humidity_def py_index_def Let_def
        temperature_min_limit_def temperature_max_limit_def temperature_decay_rate_def
        temperature_action_factor_def humidity_min_limit_def humidity_decay_rate_def
        humidity_action_factor_def)

section \<open>Smoothing\<close>

text \<open>
  Claim C8. For every timestep \<open>t\<close> of a series, the smoothed reading is the mean of the
  \<open>min (t + 1) 5\<close> most recent samples ending at \<open>t\<close>: the samples \<open>0..t\<close> while \<open>t < 4\<close>
  and the samples \<open>t - 4..t\<close> from \<open>t = 4\<close> on.
\<close>

theorem smooth_data_window:
  assumes "t < length data"
  shows "smooth_data (int t) data 5 =
           Inr ((\<Sum>k = t + 1 - min (t + 1) 5..<t + 1. data ! k) / real (min (t + 1) 5))"
proof (cases "t < 4")
  case True
  have "py_slice data 0 (int t + 1) = take (t + 1) data"
    using py_slice_nat [of 0 "t + 1" data] assms by (simp add: add.commute)
  then have eq: "smooth_data (int t) data 5 = Inr (sum_list (take (t + 1) data) / real (t + 1))"
    using True by (simp add: smooth_data_def Let_def add.commute)
  have "sum_list (take (t + 1) data) = (\<Sum>k = 0..<t + 1. data ! k)"
    using sum_list_window [of 0 "t + 1" data] assms by simp
  moreover have "min (t + 1) 5 = t + 1"
    using True by simp
  ultimately show ?thesis
    unfolding eq by simp
next
  case False
  then have t4: "4 \<le> t" by simp
  have "py_slice data (int t - 4) (int t + 1) = take 5 (drop (t - 4) data)"
    using py_slice_nat [of "t - 4" "t + 1" data] assms t4 by (simp add: of_nat_diff add.commute)
  then have eq: "smooth_data (int t) data 5 = Inr (sum_list (take 5 (drop (t - 4) data)) / 5)"
    using t4 by (simp add: smooth_data_def Let_def max_def)
  have "t - 4 + 5 = t + 1"
    using t4 by simp
  then have "sum_list (take 5 (drop (t - 4) data)) = (\<Sum>k = t - 4..<t + 1. data ! k)"
    using sum_list_window [of "t - 4" 5 data] assms by simp
  moreover have "min (t + 1) 5 = 5" and "t + 1 - 5 = t - 4"
    using t4 by simp_all
  ultimately show ?thesis
    unfolding eq by simp
qed

theorem smooth_data_window_witness:
  "(5::nat) < length [1, 2, 3, 4, 5, 6, 7 :: real]
   \<and> smooth_data 5 [1, 2, 3, 4, 5, 6, 7] 5 = Inr 4
   \<and> smooth_data 2 [1, 2, 3, 4, 5, 6, 7] 5 = Inr 2"
  using smooth_data_window [of 5 "[1, 2, 3, 4, 5, 6, 7]"]
    smooth_data_window [of 2 "[1, 2, 3, 4, 5, 6, 7]"]
  by (simp add: smooth_data_def py_slice_def slice_bound_def Let_def)

section \<open>The controllers' inputs\<close>

text \<open>
  Claim C10. On sensor arrays \<open>[temperature, humidity, moisture]\<close>, the dehumidifier
  controller returns the same outcome whatever the temperature and moisture components are,
  the heating controller whatever the humidity and moisture components are, and the
  ventilation controller whatever the temperature component is. This holds for every
  inference routine \<open>compute\<close>, which is a function of the rules and the assigned inputs.
\<close>

theorem controllers_read_only_their_inputs:
  "dehumidifier_controller compute [t, h, m] = dehumidifier_controller compute [t', h, m']
   \<and> heating_controller compute [t, h, m] = heating_controller compute [t, h', m']
   \<and> ventilation_controller compute [t, h, m] = ventilation_controller compute [t', h, m]"
  by (simp add: dehumidifier_controller_def heating_controller_def ventilation_controller_def
        py_index_def)

section \<open>Rise time and stability at the end of a run\<close>

lemma np_select_map:
  "length ys = length xs \<Longrightarrow>
     np_select xs (map P ys) = Inr (map fst (filter (\<lambda>(x, y). P y) (zip xs ys)))"
proof -
  assume len: "length ys = length xs"
  have "filter snd (zip xs (map P ys)) = map (\<lambda>(x, y). (x, P y)) (filter (\<lambda>(x, y). P y) (zip xs ys))"
    using len
  proof (induction xs arbitrary: ys)
    case Nil
    then show ?case by simp
  next
    case (Cons x xs)
    then obtain y ys' where "ys = y # ys'" by (cases ys) auto
    with Cons show ?case by simp
  qed
  then show ?thesis
    using len by (simp add: np_select_def comp_def case_prod_unfold)
qed

lemma select_subset:
  "set (map fst (filter Q (zip xs ys))) \<subseteq> set xs"
  by (auto dest: set_zip_leftD)

lemma select_empty:
  "length ys = length xs \<Longrightarrow> \<forall>y \<in> set ys. \<not> P y \<Longrightarrow>
     map fst (filter (\<lambda>(x, y). P y) (zip xs ys)) = []"
  by (auto simp add: filter_empty_conv dest: set_zip_rightD)

lemma stability_empty: "stability time [] = Inl IndexError"
  by (simp add: stability_def py_index_def)

lemma stability_nonempty:
  assumes "rise \<noteq> []" and "set rise \<subseteq> set time"
  shows "\<exists>s. stability time rise = Inr s"
proof -
  have idx: "py_index rise 0 = Inr (rise ! 0)"
    using assms(1) by (simp add: py_index_def)
  have "rise ! 0 \<in> set time"
    using assms by (metis length_greater_0_conv nth_mem subsetD)
  then have "filter (\<lambda>t. rise ! 0 \<le> t) time \<noteq> []"
    by (auto simp add: filter_empty_conv)
  then show ?thesis
    by (simp add: stability_def idx Let_def)
qed

text \<open>
  Claim C9 fails on the code. When the updated series have the length of the time vector
  and one of them never enters its comfort band (temperature in \<open>[18, 22]\<close>, humidity in
  \<open>[40, 60]\<close>, moisture at most 20), the analysis at the end of \<^verbatim>\<open>main\<close> does not report
  anything: it raises \<open>IndexError\<close> on the first element of the empty selection.
\<close>

theorem rise_and_stability_crashes:
  assumes "length (temperature_updated st) = length time"
    and "length (humidity_updated st) = length time"
    and "length (moisture_updated st) = length time"
    and "(\<forall>x \<in> set (temperature_updated st). \<not> (x \<le> 22 \<and> x \<ge> 18))
         \<or> (\<forall>x \<in> set (humidity_updated st). \<not> (x \<le> 60 \<and> x \<ge> 40))
         \<or> (\<forall>x \<in> set (moisture_updated st). \<not> x \<le> 20)"
  shows "rise_and_stability time st = Inl IndexError"
proof -
  define rt where "rt = map fst (filter (\<lambda>(x, y). y \<le> 22 \<and> y \<ge> 18) (zip time (temperature_updated st)))"
  define rh where "rh = map fst (filter (\<lambda>(x, y). y \<le> 60 \<and> y \<ge> 40) (zip time (humidity_updated st)))"
  define rm where "rm = map fst (filter (\<lambda>(x, y). y \<le> 20) (zip time (moisture_updated st)))"
  have sel: "np_select time (map (\<lambda>x. x \<le> 22 \<and> x \<ge> 18) (temperature_updated st)) = Inr rt"
    "np_select time (map (\<lambda>x. x \<le> 60 \<and> x \<ge> 40) (humidity_updated st)) = Inr rh"
    "np_select time (map (\<lambda>x. x \<le> 20) (moisture_updated st)) = Inr rm"
    using assms(1-3) by (simp_all add: np_select_map rt_def rh_def rm_def)
  have sub: "set rt \<subseteq> set time" "set rh \<subseteq> set time" "set rm \<subseteq> set time"
    unfolding rt_def rh_def rm_def by (rule select_subset)+
  have run: "rise_and_stability time st =
      bind_err (stability time rt) (\<lambda>stability_temperature.
      bind_err (stability time rh) (\<lambda>stability_humidity.
      bind_err (stability time rm) (\<lambda>stability_moisture.
      bind_err (py_index rt 0) (\<lambda>a.
      bind_err (py_index rh 0) (\<lambda>b.
      bind_err (py_index rm 0) (\<lambda>c.
      Inr ((a, b, c), (stability_temperature, stability_humidity, stability_moisture))))))))"
    by (simp add: rise_and_stability_def sel)
  show ?thesis
  proof (cases "rt = []")
    case True
    then show ?thesis by (simp add: run stability_empty)
  next
    case rt: False
    then obtain s1 where s1: "stability time rt = Inr s1"
      using stability_nonempty sub(1) by blast
    show ?thesis
    proof (cases "rh = []")
      case True
      then show ?thesis by (simp add: run s1 stability_empty)
    next
      case rh: False
      then obtain s2 where s2: "stability time rh = Inr s2"
        using stability_nonempty sub(2) by blast
      have "\<not> (\<forall>x \<in> set (temperature_updated st). \<not> (x \<le> 22 \<and> x \<ge> 18))"
        using rt select_empty [OF assms(1), of "\<lambda>y. y \<le> 22 \<and> y \<ge> 18"]
        unfolding rt_def by fast
      moreover have "\<not> (\<forall>x \<in> set (humidity_updated st). \<not> (x \<le> 60 \<and> x \<ge> 40))"
        using rh select_empty [OF assms(2), of "\<lambda>y. y \<le> 60 \<and> y \<ge> 40"]
        unfolding rh_def by fast
      ultimately have "\<forall>x \<in> set (moisture_updated st). \<not> x \<le> 20"
        using assms(4) by fast
      then have "rm = []"
        using select_empty [OF assms(3), of "\<lambda>y. y \<le> 20"]
        unfolding rm_def by fast
      then show ?thesis by (simp add: run s1 s2 stability_empty)
    qed
  qed
qed

theorem rise_and_stability_crashes_witness:
  "rise_and_stability [0, 1 / 30, 1 / 15]
     \<lparr>temperature_updated = [15, 149 / 10, 148 / 10], humidity_updated = [70, 65, 60],
      moisture_updated = [25, 22, 20], dehumidifier_action = [0, 0, 0],
      ventilation_action = [0, 0, 0], heating_action = [0, 0, 0]\<rparr> = Inl IndexError"
  using rise_and_stability_crashes [of
    "\<lparr>temperature_updated = [15, 149 / 10, 148 / 10], humidity_updated = [70, 65, 60],
      moisture_updated = [25, 22, 20], dehumidifier_action = [0, 0, 0],
      ventilation_action = [0, 0, 0], heating_action = [0, 0, 0]\<rparr>" "[0, 1 / 30, 1 / 15]"]
  by simp

section \<open>The feedback loop\<close>

lemma bind_err_eq_Inr:
  "bind_err m f = Inr y \<longleftrightarrow> (\<exists>x. m = Inr x \<and> f x = Inr y)"
  by (cases m) simp_all

lemma py_store_nat:
  "k < length xs \<Longrightarrow> py_store xs (int k) v = Inr (xs[k := v])"
  by (simp add: py_store_def)

lemma update_temperature_local:
  assumes "0 < j" and "j \<le> length m" and "length m' = length m" and "m' ! (j - 1) = m ! (j - 1)"
  shows "update_temperature (int j) b m' h lo hi dr af = update_temperature (int j) b m h lo hi dr af"
  using assms by (cases "py_index b (int j)") (simp_all add: update_temperature_def py_index_pred)

lemma update_humidity_local:
  assumes "0 < j" and "j \<le> length m" and "length m' = length m" and "m' ! (j - 1) = m ! (j - 1)"
  shows "update_humidity (int j) b m' d v lo dr af = update_humidity (int j) b m d v lo dr af"
  using assms by (cases "py_index b (int j)") (simp_all add: update_humidity_def py_index_pred)

lemma update_moisture_local:
  assumes "0 < j" and "j \<le> length m" and "length m' = length m" and "m' ! (j - 1) = m ! (j - 1)"
  shows "update_moisture (int j) b m' v lo dr af = update_moisture (int j) b m v lo dr af"
  using assms by (cases "py_index b (int j)") (simp_all add: update_moisture_def py_index_pred)

lemma plant_updates_Inr:
  assumes "plant_updates sg st (int k) = Inr st'" and "0 < k"
    and "k < length (temperature_updated st)" and "k < length (humidity_updated st)"
    and "k < length (moisture_updated st)" and "k \<le> length (dehumidifier_action st)"
    and "k \<le> length (ventilation_action st)" and "k \<le> length (heating_action st)"
  shows "\<exists>vt vh vm.
      update_temperature (int k) (temperature_base sg) (temperature_updated st)
        (heating_action st ! (k - 1)) temperature_min_limit temperature_max_limit
        temperature_decay_rate temperature_action_factor = Inr vt
    \<and> update_humidity (int k) (humidity_base sg) (humidity_updated st)
        (dehumidifier_action st ! (k - 1)) (ventilation_action st ! (k - 1))
        humidity_min_limit humidity_decay_rate humidity_action_factor = Inr vh
    \<and> update_moisture (int k) (moisture_base sg) (moisture_updated st)
        (ventilation_action st ! (k - 1))
        moisture_min_limit moisture_decay_rate moisture_action_factor = Inr vm
    \<and> st' = st\<lparr>temperature_updated := (temperature_updated st)[k := vt],
                humidity_updated := (humidity_updated st)[k := vh],
                moisture_updated := (moisture_updated st)[k := vm]\<rparr>"
  using assms
  by (auto simp add: plant_updates_def bind_err_eq_Inr py_index_pred py_store_nat)

lemma record_actions_Inr:
  assumes "record_actions compute sensdata st (int k) = Inr st'"
    and "k < length (dehumidifier_action st)"
    and "k < length (ventilation_action st)" and "k < length (heating_action st)"
  shows "\<exists>a b c. st' = st\<lparr>dehumidifier_action := (dehumidifier_action st)[k := a],
                          ventilation_action := (ventilation_action st)[k := b],
                          heating_action := (heating_action st)[k := c]\<rparr>"
  using assms
  by (auto simp add: record_actions_def bind_err_eq_Inr py_store_nat)


lemma lagged_local:
  assumes "0 < j" and "j < N" and "same_lengths N st" and "same_lengths N st'"
    and "temperature_updated st' ! (j - 1) = temperature_updated st ! (j - 1)"
    and "humidity_updated st' ! (j - 1) = humidity_updated st ! (j - 1)"
    and "moisture_updated st' ! (j - 1) = moisture_updated st ! (j - 1)"
    and "temperature_updated st' ! j = temperature_updated st ! j"
    and "humidity_updated st' ! j = humidity_updated st ! j"
    and "moisture_updated st' ! j = moisture_updated st ! j"
    and "dehumidifier_action st' ! (j - 1) = dehumidifier_action st ! (j - 1)"
    and "ventilation_action st' ! (j - 1) = ventilation_action st ! (j - 1)"
    and "heating_action st' ! (j - 1) = heating_action st ! (j - 1)"
  shows "lagged sg st' j \<longleftrightarrow> lagged sg st j"
proof -
  have t: "update_temperature (int j) b (temperature_updated st') h lo hi dr af
         = update_temperature (int j) b (temperature_updated st) h lo hi dr af" for b h lo hi dr af
    using assms by (intro update_temperature_local) (simp_all add: same_lengths_def)
  have h: "update_humidity (int j) b (humidity_updated st') d v lo dr af
         = update_humidity (int j) b (humidity_updated st) d v lo dr af" for b d v lo dr af
    using assms by (intro update_humidity_local) (simp_all add: same_lengths_def)
  have m: "update_moisture (int j) b (moisture_updated st') v lo dr af
         = update_moisture (int j) b (moisture_updated st) v lo dr af" for b v lo dr af
    using assms by (intro update_moisture_local) (simp_all add: same_lengths_def)
  show ?thesis
    unfolding lagged_def t h m using assms(5-13) by simp
qed

lemma record_actions_keeps:
  assumes "record_actions compute sensdata st (int k) = Inr st'" and "same_lengths N st"
    and "k < N"
  shows "same_lengths N st'
     \<and> temperature_updated st' = temperature_updated st
     \<and> humidity_updated st' = humidity_updated st
     \<and> moisture_updated st' = moisture_updated st
     \<and> (\<forall>j. j \<noteq> k \<longrightarrow> dehumidifier_action st' ! j = dehumidifier_action st ! j
                  \<and> ventilation_action st' ! j = ventilation_action st ! j
                  \<and> heating_action st' ! j = heating_action st ! j)"
proof -
  obtain a b c where "st' = st\<lparr>dehumidifier_action := (dehumidifier_action st)[k := a],
                          ventilation_action := (ventilation_action st)[k := b],
                          heating_action := (heating_action st)[k := c]\<rparr>"
    using record_actions_Inr [OF assms(1)] assms(2,3) by (auto simp add: same_lengths_def)
  then show ?thesis
    using assms(2) by (simp add: same_lengths_def)
qed

lemma plant_updates_keeps:
  assumes "plant_updates sg st (int k) = Inr st'" and "same_lengths N st"
    and "0 < k" and "k < N"
  shows "same_lengths N st'
     \<and> dehumidifier_action st' = dehumidifier_action st
     \<and> ventilation_action st' = ventilation_action st
     \<and> heating_action st' = heating_action st
     \<and> (\<forall>j. j \<noteq> k \<longrightarrow> temperature_updated st' ! j = temperature_updated st ! j
                  \<and> humidity_updated st' ! j = humidity_updated st ! j
                  \<and> moisture_updated st' ! j = moisture_updated st ! j)
     \<and> lagged sg st' k"
proof -
  have lens: "k < length (temperature_updated st)" "k < length (humidity_updated st)"
    "k < length (moisture_updated st)" "k \<le> length (dehumidifier_action st)"
    "k \<le> length (ventilation_action st)" "k \<le> length (heating_action st)"
    using assms(2,4) by (simp_all add: same_lengths_def)
  obtain vt vh vm where
    vt: "update_temperature (int k) (temperature_base sg) (temperature_updated st)
        (heating_action st ! (k - 1)) temperature_min_limit temperature_max_limit
        temperature_decay_rate temperature_action_factor = Inr vt"
    and vh: "update_humidity (int k) (humidity_base sg) (humidity_updated st)
        (dehumidifier_action st ! (k - 1)) (ventilation_action st ! (k - 1))
        humidity_min_limit humidity_decay_rate humidity_action_factor = Inr vh"
    and vm: "update_moisture (int k) (moisture_base sg) (moisture_updated st)
        (ventilation_action st ! (k - 1))
        moisture_min_limit moisture_decay_rate moisture_action_factor = Inr vm"
    and st': "st' = st\<lparr>temperature_updated := (temperature_updated st)[k := vt],
                humidity_updated := (humidity_updated st)[k := vh],
                moisture_updated := (moisture_updated st)[k := vm]\<rparr>"
    using plant_updates_Inr [OF assms(1,3) lens] by blast
  have km: "k - 1 \<noteq> k" "k \<le> N"
    using assms(3,4) by simp_all
  have t: "update_temperature (int k) b ((temperature_updated st)[k := vt]) h lo hi dr af
         = update_temperature (int k) b (temperature_updated st) h lo hi dr af" for b h lo hi dr af
    using assms(3) lens km by (intro update_temperature_local) simp_all
  have h: "update_humidity (int k) b ((humidity_updated st)[k := vh]) d v lo dr af
         = update_humidity (int k) b (humidity_updated st) d v lo dr af" for b d v lo dr af
    using assms(3) lens km by (intro update_humidity_local) simp_all
  have m: "update_moisture (int k) b ((moisture_updated st)[k := vm]) v lo dr af
         = update_moisture (int k) b (moisture_updated st) v lo dr af" for b v lo dr af
    using assms(3) lens km by (intro update_moisture_local) simp_all
  have "lagged sg st' k"
    unfolding lagged_def st' using lens vt vh vm by (simp add: t h m)
  moreover have "same_lengths N st'"
    using assms(2) by (simp add: st' same_lengths_def)
  ultimately show ?thesis
    by (simp add: st')
qed

lemma loop_body_invariant:
  assumes inv: "loop_invariant N sg k st" and k: "k < N"
    and body: "loop_body compute sg st (int k) = Inr st'"
  shows "loop_invariant N sg (Suc k) st'"
proof -
  from body obtain st1 sens where
    st1: "(if 0 < k then plant_updates sg st (int k) else Inr st) = Inr st1"
    and rec: "record_actions compute sens st1 (int k) = Inr st'"
    by (auto simp add: loop_body_def bind_err_eq_Inr)
  have sl: "same_lengths N st"
    and unt: "\<And>j. j < N \<Longrightarrow> j = 0 \<or> k \<le> j \<Longrightarrow> untouched sg st j"
    and lag: "\<And>j. 0 < j \<Longrightarrow> j < k \<Longrightarrow> lagged sg st j"
    using inv unfolding loop_invariant_def by blast+
  have mid: "same_lengths N st1
     \<and> dehumidifier_action st1 = dehumidifier_action st
     \<and> ventilation_action st1 = ventilation_action st
     \<and> heating_action st1 = heating_action st
     \<and> (\<forall>j. j \<noteq> k \<or> k = 0 \<longrightarrow> temperature_updated st1 ! j = temperature_updated st ! j
                  \<and> humidity_updated st1 ! j = humidity_updated st ! j
                  \<and> moisture_updated st1 ! j = moisture_updated st ! j)
     \<and> (0 < k \<longrightarrow> lagged sg st1 k)"
  proof (cases "0 < k")
    case True
    then have "plant_updates sg st (int k) = Inr st1"
      using st1 by simp
    from plant_updates_keeps [OF this sl True k] True show ?thesis
      by simp
  next
    case False
    then show ?thesis
      using st1 sl by simp
  qed
  have fin: "same_lengths N st'"
    "temperature_updated st' = temperature_updated st1"
    "humidity_updated st' = humidity_updated st1"
    "moisture_updated st' = moisture_updated st1"
    "\<And>j. j \<noteq> k \<Longrightarrow> dehumidifier_action st' ! j = dehumidifier_action st1 ! j"
    "\<And>j. j \<noteq> k \<Longrightarrow> ventilation_action st' ! j = ventilation_action st1 ! j"
    "\<And>j. j \<noteq> k \<Longrightarrow> heating_action st' ! j = heating_action st1 ! j"
    using record_actions_keeps [OF rec _ k] mid by simp_all
  have untouched': "untouched sg st' j" if "j < N" and "j = 0 \<or> Suc k \<le> j" for j
  proof -
    have "j \<noteq> k \<or> k = 0"
      using that(2) by auto
    moreover have "untouched sg st j"
      using that by (intro unt) auto
    ultimately show ?thesis
      using mid by (simp add: untouched_def fin)
  qed
  have lagged': "lagged sg st' j" if "0 < j" and "j < Suc k" for j
  proof (cases "j = k")
    case True
    then have "lagged sg st1 k"
      using that mid by simp
    moreover have "lagged sg st' k \<longleftrightarrow> lagged sg st1 k"
      using that True k mid fin by (intro lagged_local [of k N]) simp_all
    ultimately show ?thesis
      using True by simp
  next
    case False
    then have jk: "j < k"
      using that by simp
    then have "lagged sg st j"
      using that by (intro lag)
    moreover have "lagged sg st' j \<longleftrightarrow> lagged sg st j"
      using that jk k mid fin sl by (intro lagged_local [of j N]) simp_all
    ultimately show ?thesis
      by simp
  qed
  show ?thesis
    unfolding loop_invariant_def using fin(1) untouched' lagged' by blast
qed

lemma run_loop_invariant:
  assumes "loop_invariant N sg k st" and "k \<le> N"
    and "run_loop compute sg st [k..<N] = Inr st'"
  shows "loop_invariant N sg N st'"
  using assms
proof (induction "N - k" arbitrary: k st)
  case 0
  then show ?case by simp
next
  case (Suc n)
  then have k: "k < N" by simp
  then have "[k..<N] = k # [Suc k..<N]"
    by (simp add: upt_conv_Cons)
  with Suc.prems(3) obtain st1 where
    body: "loop_body compute sg st (int k) = Inr st1"
    and rest: "run_loop compute sg st1 [Suc k..<N] = Inr st'"
    by (auto simp add: bind_err_eq_Inr)
  have "loop_invariant N sg (Suc k) st1"
    using loop_body_invariant [OF Suc.prems(1) k body] .
  moreover have "n = N - Suc k" and "Suc k \<le> N"
    using Suc.hyps(2) k by simp_all
  ultimately show ?case
    using Suc.hyps(1) rest by blast
qed

lemma initial_invariant:
  assumes "length (temperature_base sg) = length time"
    and "length (humidity_base sg) = length time"
    and "length (moisture_base sg) = length time"
  shows "loop_invariant (length time) sg 0 (initial_state time sg)"
  using assms
  by (simp add: loop_invariant_def same_lengths_def untouched_def initial_state_def)

text \<open>
  The run completes whenever the base and noise series have the length of the time vector
  and the three controllers return a value on every reading.
\<close>

lemma sense_total:
  assumes "same_lengths N st" and "length (temperature_noise sg) = N"
    and "length (humidity_noise sg) = N" and "length (moisture_noise sg) = N"
  shows "\<exists>t h m. sense sg st (int k) = Inr [t, h, m]"
proof -
  have "int k + 1 - max 0 (int k - 5 + 1) \<noteq> 0"
    by (simp add: max_def)
  then have "\<exists>v. smooth_data (int k) data 5 = Inr v" for data
    by (simp add: smooth_data_def Let_def)
  then obtain ft fh fm where
    "\<And>data. smooth_data (int k) data 5 = Inr (ft data)"
    by metis
  moreover have "\<exists>zs. np_add xs ys = Inr zs" if "length xs = length ys" for xs ys
    using that by (simp add: np_add_def)
  then obtain nt nh nm where
    "np_add (temperature_updated st) (temperature_noise sg) = Inr nt"
    "np_add (humidity_updated st) (humidity_noise sg) = Inr nh"
    "np_add (moisture_updated st) (moisture_noise sg) = Inr nm"
    using assms unfolding same_lengths_def by metis
  ultimately show ?thesis
    by (simp add: sense_def)
qed

lemma plant_updates_total:
  assumes "same_lengths N st" and "length (temperature_base sg) = N"
    and "length (humidity_base sg) = N" and "length (moisture_base sg) = N"
    and "0 < k" and "k < N"
  shows "\<exists>st'. plant_updates sg st (int k) = Inr st'"
  using assms
  by (simp add: plant_updates_def same_lengths_def py_index_pred py_index_nat py_store_nat
        update_temperature_def update_humidity_def update_moisture_def Let_def)

lemma record_actions_total:
  assumes "same_lengths N st" and "k < N"
    and "dehumidifier_controller compute s = Inr a"
    and "ventilation_controller compute s = Inr b"
    and "heating_controller compute s = Inr c"
  shows "\<exists>st'. record_actions compute s st (int k) = Inr st'"
  using assms
  by (simp add: record_actions_def same_lengths_def py_store_nat)

lemma loop_body_total:
  assumes sl: "same_lengths N st" and "length (temperature_base sg) = N"
    and "length (humidity_base sg) = N" and "length (moisture_base sg) = N"
    and "length (temperature_noise sg) = N"
    and "length (humidity_noise sg) = N" and "length (moisture_noise sg) = N"
    and k: "k < N"
    and ctl: "\<And>t h m. (\<exists>a. dehumidifier_controller compute [t, h, m] = Inr a)
        \<and> (\<exists>b. ventilation_controller compute [t, h, m] = Inr b)
        \<and> (\<exists>c. heating_controller compute [t, h, m] = Inr c)"
  shows "\<exists>st'. loop_body compute sg st (int k) = Inr st' \<and> same_lengths N st'"
proof -
  obtain st1 where st1: "(if 0 < k then plant_updates sg st (int k) else Inr st) = Inr st1"
    using plant_updates_total [of N st sg k] assms by (cases "0 < k") auto
  have sl1: "same_lengths N st1"
  proof (cases "0 < k")
    case True
    then show ?thesis
      using plant_updates_keeps [of sg st k st1 N] st1 sl k by simp
  next
    case False
    then show ?thesis using st1 sl by simp
  qed
  obtain t h m where sens: "sense sg st1 (int k) = Inr [t, h, m]"
    using sense_total [OF sl1 assms(5-7)] by blast
  obtain a b c where "dehumidifier_controller compute [t, h, m] = Inr a"
    and "ventilation_controller compute [t, h, m] = Inr b"
    and "heating_controller compute [t, h, m] = Inr c"
    using ctl by blast
  then obtain st' where rec: "record_actions compute [t, h, m] st1 (int k) = Inr st'"
    using record_actions_total [OF sl1 k] by blast
  have "same_lengths N st'"
    using record_actions_keeps [OF rec sl1 k] by simp
  moreover have "loop_body compute sg st (int k) = Inr st'"
  proof (cases "0 < k")
    case True
    then have "plant_updates sg st (int k) = Inr st1"
      using st1 by simp
    then show ?thesis
      using True sens rec by (simp add: loop_body_def)
  next
    case False
    then have "st1 = st"
      using st1 by simp
    then show ?thesis
      using False sens rec by (simp add: loop_body_def)
  qed
  ultimately show ?thesis
    by blast
qed

lemma run_loop_total:
  assumes "same_lengths N st" and "length (temperature_base sg) = N"
    and "length (humidity_base sg) = N" and "length (moisture_base sg) = N"
    and "length (temperature_noise sg) = N"
    and "length (humidity_noise sg) = N" and "length (moisture_noise sg) = N"
    and "k \<le> N"
    and ctl: "\<And>t h m. (\<exists>a. dehumidifier_controller compute [t, h, m] = Inr a)
        \<and> (\<exists>b. ventilation_controller compute [t, h, m] = Inr b)
        \<and> (\<exists>c. heating_controller compute [t, h, m] = Inr c)"
  shows "\<exists>st'. run_loop compute sg st [k..<N] = Inr st'"
  using assms(1,8)
proof (induction "N - k" arbitrary: k st)
  case 0
  then show ?case by simp
next
  case (Suc n)
  then have k: "k < N" by simp
  then have upt: "[k..<N] = k # [Suc k..<N]"
    by (simp add: upt_conv_Cons)
  obtain st1 where body: "loop_body compute sg st (int k) = Inr st1"
    and sl1: "same_lengths N st1"
    using loop_body_total [OF Suc.prems(1) assms(2-7) k ctl] by blast
  have "n = N - Suc k" and "Suc k \<le> N"
    using Suc.hyps(2) k by simp_all
  then obtain st' where "run_loop compute sg st1 [Suc k..<N] = Inr st'"
    using Suc.hyps(1) sl1 by blast
  then show ?case
    using body by (simp add: upt)
qed

lemma simulate_total:
  assumes "length (temperature_base sg) = length time"
    and "length (humidity_base sg) = length time"
    and "length (moisture_base sg) = length time"
    and "length (temperature_noise sg) = length time"
    and "length (humidity_noise sg) = length time"
    and "length (moisture_noise sg) = length time"
    and ctl: "\<And>t h m. (\<exists>a. dehumidifier_controller compute [t, h, m] = Inr a)
        \<and> (\<exists>b. ventilation_controller compute [t, h, m] = Inr b)
        \<and> (\<exists>c. heating_controller compute [t, h, m] = Inr c)"
  shows "\<exists>st. simulate compute time sg = Inr st"
proof -
  have "same_lengths (length time) (initial_state time sg)"
    using assms(1-3) by (simp add: same_lengths_def initial_state_def)
  from run_loop_total [OF this assms(1-6) _ ctl, of 0] show ?thesis
    by (simp add: simulate_def)
qed

text \<open>
  Nothing in the loop catches what a controller raises: the step fails with the first
  error, and no action is recorded for it.
\<close>

lemma record_actions_propagates:
  "dehumidifier_controller compute sensdata = Inl e \<Longrightarrow>
     record_actions compute sensdata st i = Inl e"
  by (simp add: record_actions_def)

text \<open>
  Claim C7. In every completed run over base series of the length of the time vector, each
  updated series starts at its base value, and for every \<open>t > 0\<close> its value at \<open>t\<close> is the
  result of its update law at \<open>t\<close>, which reads the updated series at \<open>t - 1\<close>, the base
  series at \<open>t\<close> and the actions recorded at \<open>t - 1\<close>, in the state at the end of the run:
  later iterations change neither these values nor the value at \<open>t\<close>.
\<close>

theorem simulate_one_step_lag:
  assumes "simulate compute time sg = Inr st"
    and "length (temperature_base sg) = length time"
    and "length (humidity_base sg) = length time"
    and "length (moisture_base sg) = length time"
  shows "(0 < length time \<longrightarrow>
            temperature_updated st ! 0 = temperature_base sg ! 0
          \<and> humidity_updated st ! 0 = humidity_base sg ! 0
          \<and> moisture_updated st ! 0 = moisture_base sg ! 0)
       \<and> (\<forall>t. 0 < t \<and> t < length time \<longrightarrow> lagged sg st t)"
proof -
  have "loop_invariant (length time) sg (length time) st"
    using run_loop_invariant [OF initial_invariant [OF assms(2-4)], of compute st] assms(1)
    by (simp add: simulate_def)
  then show ?thesis
    by (simp add: loop_invariant_def untouched_def)
qed

theorem simulate_one_step_lag_witness:
  "simulate (\<lambda>rules inputs. Inr [(''dehumidifier'', 1), (''ventilation'', 2), (''heating'', 3)])
     [0, 1 / 30, 1 / 15]
     \<lparr>temperature_base = [15, 16, 17], temperature_noise = [1, 0, - 1],
      humidity_base = [70, 71, 72], humidity_noise = [0, 2, 0],
      moisture_base = [25, 25, 25], moisture_noise = [0, 0, 1]\<rparr>
   = Inr \<lparr>temperature_updated = [15, 303 / 20, 61191 / 4000],
          humidity_updated = [70, 6937 / 100, 6874567 / 100000],
          moisture_updated = [25, 99 / 4, 9801 / 400],
          dehumidifier_action = [1, 1, 1], ventilation_action = [2, 2, 2],
          heating_action = [3, 3, 3]\<rparr>
   \<and> lagged \<lparr>temperature_base = [15, 16, 17], temperature_noise = [1, 0, - 1],
      humidity_base = [70, 71, 72], humidity_noise = [0, 2, 0],
      moisture_base = [25, 25, 25], moisture_noise = [0, 0, 1]\<rparr>
      \<lparr>temperature_updated = [15, 303 / 20, 61191 / 4000],
          humidity_updated = [70, 6937 / 100, 6874567 / 100000],
          moisture_updated = [25, 99 / 4, 9801 / 400],
          dehumidifier_action = [1, 1, 1], ventilation_action = [2, 2, 2],
          heating_action = [3, 3, 3]\<rparr> 2"
proof -
  have run: "simulate (\<lambda>rules inputs. Inr [(''dehumidifier'', 1), (''ventilation'', 2), (''heating'', 3)])
     [0, 1 / 30, 1 / 15]
     \<lparr>temperature_base = [15, 16, 17], temperature_noise = [1, 0, - 1],
      humidity_base = [70, 71, 72], humidity_noise = [0, 2, 0],
      moisture_base = [25, 25, 25], moisture_noise = [0, 0, 1]\<rparr>
   = Inr \<lparr>temperature_updated = [15, 303 / 20, 61191 / 4000],
          humidity_updated = [70, 6937 / 100, 6874567 / 100000],
          moisture_updated = [25, 99 / 4, 9801 / 400],
          dehumidifier_action = [1, 1, 1], ventilation_action = [2, 2, 2],
          heating_action = [3, 3, 3]\<rparr>"
    by code_simp
  show ?thesis
    using run simulate_one_step_lag [OF run] by simp
qed


section \<open>The triangular membership function\<close>

lemma degree_value:
  "degree (a, b, c) x =
     Inr (if x = b then 1
          else if a < x \<and> x < b then (x - a) / (b - a)
          else if b < x \<and> x < c then (c - x) / (c - b)
          else 0)"
  by (simp add: degree_def py_div_def)

text \<open>
  Claim C6. For ordered breakpoints \<open>a \<le> b \<le> c\<close> the degree is defined at every real \<open>x\<close>
  (no division fails), lies in \<open>[0, 1]\<close>, is 0 outside \<open>[a, c]\<close>, is 0 at \<open>a\<close> unless
  \<open>a = b\<close>, is 1 at \<open>b\<close>, is 0 at \<open>c\<close> unless \<open>b = c\<close>, does not decrease on \<open>[a, b]\<close>, does
  not increase on \<open>[b, c]\<close>, and with \<open>a = b\<close> (resp. \<open>b = c\<close>) is the ramp on the other side
  alone.
\<close>

theorem degree_triangular:
  assumes "a \<le> b" and "b \<le> c"
  shows "\<exists>f. (\<forall>x. degree (a, b, c) x = Inr (f x))
     \<and> (\<forall>x. 0 \<le> f x \<and> f x \<le> 1)
     \<and> (\<forall>x. x < a \<or> c < x \<longrightarrow> f x = 0)
     \<and> (a \<noteq> b \<longrightarrow> f a = 0) \<and> f b = 1 \<and> (b \<noteq> c \<longrightarrow> f c = 0)
     \<and> (\<forall>x y. a \<le> x \<and> x \<le> y \<and> y \<le> b \<longrightarrow> f x \<le> f y)
     \<and> (\<forall>x y. b \<le> x \<and> x \<le> y \<and> y \<le> c \<longrightarrow> f y \<le> f x)
     \<and> (a = b \<longrightarrow> (\<forall>x. f x = (if x = b then 1
                               else if b < x \<and> x < c then (c - x) / (c - b) else 0)))
     \<and> (b = c \<longrightarrow> (\<forall>x. f x = (if x = b then 1
                               else if a < x \<and> x < b then (x - a) / (b - a) else 0)))"
proof -
  define f where "f x = (if x = b then 1
          else if a < x \<and> x < b then (x - a) / (b - a)
          else if b < x \<and> x < c then (c - x) / (c - b)
          else 0)" for x
  have val: "\<forall>x. degree (a, b, c) x = Inr (f x)"
    by (simp add: degree_value f_def)
  have range: "\<forall>x. 0 \<le> f x \<and> f x \<le> 1"
    by (simp add: f_def)
  have outside: "\<forall>x. x < a \<or> c < x \<longrightarrow> f x = 0"
    using assms by (auto simp add: f_def)
  have ends: "(a \<noteq> b \<longrightarrow> f a = 0) \<and> f b = 1 \<and> (b \<noteq> c \<longrightarrow> f c = 0)"
    using assms by (simp add: f_def)
  have up: "f x \<le> f y" if "a \<le> x" and "x \<le> y" and "y \<le> b" for x y
  proof (cases "y = b")
    case True
    then show ?thesis using range by (simp add: f_def)
  next
    case False
    then have "y < b" and "x < b" and "a < b"
      using that by simp_all
    then show ?thesis
      using that by (auto simp add: f_def divide_right_mono)
  qed
  have down: "f y \<le> f x" if "b \<le> x" and "x \<le> y" and "y \<le> c" for x y
  proof (cases "x = b")
    case True
    then show ?thesis using range by (simp add: f_def)
  next
    case False
    then have "b < x" and "b < y" and "b < c"
      using that by simp_all
    then show ?thesis
      using that assms by (auto simp add: f_def divide_right_mono)
  qed
  have left: "a = b \<longrightarrow> (\<forall>x. f x = (if x = b then 1
                               else if b < x \<and> x < c then (c - x) / (c - b) else 0))"
    by (auto simp add: f_def)
  have right: "b = c \<longrightarrow> (\<forall>x. f x = (if x = b then 1
                               else if a < x \<and> x < b then (x - a) / (b - a) else 0))"
    by (auto simp add: f_def)
  show ?thesis
    using val range outside ends up down left right by blast
qed

theorem degree_triangular_witness:
  "(45::real) \<le> 60 \<and> (60::real) \<le> 75
   \<and> degree (45, 60, 75) 50 = Inr (1 / 3) \<and> degree (0, 0, 50) 0 = Inr 1
   \<and> degree (70, 100, 100) 100 = Inr 1 \<and> degree (70, 100, 100) 85 = Inr (1 / 2)
   \<and> (\<exists>f. (\<forall>x. degree (45, 60, 75) x = Inr (f x)) \<and> f 45 = 0 \<and> f 60 = 1 \<and> f 75 = 0)"
proof -
  have ord: "(45::real) \<le> 60" "(60::real) \<le> 75"
    by simp_all
  from degree_triangular [OF ord] obtain f where
    "\<forall>x. degree (45, 60, 75) x = Inr (f x)" and "f 45 = 0" and "f 60 = 1" and "f 75 = 0"
    by force
  then have "\<exists>f. (\<forall>x. degree (45, 60, 75) x = Inr (f x)) \<and> f 45 = 0 \<and> f 60 = 1 \<and> f 75 = 0"
    by blast
  moreover have "degree (45, 60, 75) 50 = Inr (1 / 3)" and "degree (0, 0, 50) 0 = Inr 1"
    and "degree (70, 100, 100) 100 = Inr 1" and "degree (70, 100, 100) 85 = Inr (1 / 2)"
    by (simp_all add: degree_value)
  ultimately show ?thesis
    using ord by simp
qed


end
